theory Spec2Isabelle
  imports Main
begin

section \<open>Levels\<close>

text \<open>
  The five named levels of the specification. The standard-library module
  (\<^verbatim>\<open>src/surreality_logging/__init__.py\<close>) takes a level as the integer constant
  \<^verbatim>\<open>logging.DEBUG\<close> ... \<^verbatim>\<open>logging.CRITICAL\<close>; the Loguru module
  (\<^verbatim>\<open>src/python/surreality_logging/__init__.py\<close>) takes it as the level's name.
\<close>

datatype level = DEBUG | INFO | WARNING | ERROR | CRITICAL

fun logging_level :: "level \<Rightarrow> int" where
  "logging_level DEBUG = 10"
| "logging_level INFO = 20"
| "logging_level WARNING = 30"
| "logging_level ERROR = 40"
| "logging_level CRITICAL = 50"


section \<open>Logger handles\<close>

text \<open>
  What \<^verbatim>\<open>get_logger\<close> hands out. The standard-library module returns
  \<^verbatim>\<open>logging.getLogger(name)\<close>, a logger object per name; the Loguru module returns the
  one module-level object \<^verbatim>\<open>logger\<close> imported from \<^verbatim>\<open>loguru\<close>.
\<close>

datatype handle = Stdlib_logger string | Loguru_logger

text \<open>\<^verbatim>\<open>src/surreality_logging/__init__.py\<close>, \<^verbatim>\<open>get_logger(name)\<close>.\<close>

definition get_logger :: "string \<Rightarrow> handle" where
  "get_logger name = Stdlib_logger name"

text \<open>
  \<^verbatim>\<open>src/python/surreality_logging/__init__.py\<close>, \<^verbatim>\<open>get_logger(name=None)\<close>:
  the body is \<^verbatim>\<open>return logger\<close>; the argument is not read.
\<close>

definition get_logger_loguru :: "string option \<Rightarrow> handle" where
  "get_logger_loguru name = Loguru_logger"

section \<open>Text helpers\<close>

text \<open>The escape character that starts every ANSI control sequence (\<^verbatim>\<open>\033\<close>).\<close>

definition ESC :: char where
  "ESC = CHR 0x1B"

definition digit_char :: "nat \<Rightarrow> char" where
  "digit_char d = ''0123456789'' ! (d mod 10)"

text \<open>Python's \<^verbatim>\<open>str(n)\<close> and \<^verbatim>\<open>"%d" % n\<close> for an integer.\<close>

function str_nat :: "nat \<Rightarrow> string" where
  "str_nat n = (if n < 10 then [digit_char n] else str_nat (n div 10) @ [digit_char n])"
  by pat_completeness auto
termination
  by (relation "measure id") auto

declare str_nat.simps [simp del]

definition str_int :: "int \<Rightarrow> string" where
  "str_int i = (if i < 0 then CHR ''-'' # str_nat (nat (- i)) else str_nat (nat i))"

text \<open>Zero padding on the left (\<^verbatim>\<open>%02d\<close>, \<^verbatim>\<open>:03.0f\<close>) and space padding on the right (\<^verbatim>\<open>: <8\<close>).\<close>

definition zfill :: "nat \<Rightarrow> string \<Rightarrow> string" where
  "zfill w s = replicate (w - length s) CHR ''0'' @ s"

definition ljust :: "nat \<Rightarrow> string \<Rightarrow> string" where
  "ljust w s = s @ replicate (w - length s) CHR '' ''"

text \<open>Python's \<^verbatim>\<open>str.upper()\<close> on ASCII text.\<close>

definition upper_char :: "char \<Rightarrow> char" where
  "upper_char c = (case List.find (\<lambda>p. fst p = c)
       (zip ''abcdefghijklmnopqrstuvwxyz'' ''ABCDEFGHIJKLMNOPQRSTUVWXYZ'') of
     Some p \<Rightarrow> snd p | None \<Rightarrow> c)"

definition upper :: "string \<Rightarrow> string" where
  "upper s = map upper_char s"

section \<open>Log records\<close>

text \<open>
  The local broken-down time of a record (\<^verbatim>\<open>time.localtime(record.created)\<close>) with its
  milliseconds, and the call site the record was made at.
\<close>

record timestamp =
  tm_year :: nat
  tm_mon :: nat
  tm_mday :: nat
  tm_hour :: nat
  tm_min :: nat
  tm_sec :: nat
  tm_msecs :: nat

record call_site =
  cs_module :: string
  cs_function :: string
  cs_line :: nat

text \<open>
  A \<^verbatim>\<open>logging.LogRecord\<close>, with the attributes the templates of this repository read.
  \<open>lr_message\<close> is the text \<^verbatim>\<open>record.getMessage()\<close> returns; records carry no
  exception information.
\<close>

record log_record =
  lr_name :: string
  lr_levelno :: int
  lr_levelname :: string
  lr_created :: timestamp
  lr_site :: call_site
  lr_message :: string

text \<open>\<^verbatim>\<open>time.strftime('%Y-%m-%d %H:%M:%S', ...)\<close>.\<close>

definition strftime :: "timestamp \<Rightarrow> string" where
  "strftime t =
     zfill 4 (str_nat (tm_year t)) @ ''-'' @ zfill 2 (str_nat (tm_mon t)) @ ''-''
     @ zfill 2 (str_nat (tm_mday t)) @ '' '' @ zfill 2 (str_nat (tm_hour t)) @ '':''
     @ zfill 2 (str_nat (tm_min t)) @ '':'' @ zfill 2 (str_nat (tm_sec t))"

section \<open>The standardized formatter (standard-library module)\<close>

text \<open>
  A \<^verbatim>\<open>StandardizedFormatter\<close> as \<^verbatim>\<open>configure_logging\<close> builds it: its template is
  fixed but for the service label, which is spliced in when \<^verbatim>\<open>service_name\<close> is truthy.
\<close>

datatype formatter = StandardizedFormatter "string option"

definition COLORS :: "string \<Rightarrow> string option" where
  "COLORS = map_of [
     (''DEBUG'', ESC # ''[90m''),
     (''INFO'', ESC # ''[90m''),
     (''WARNING'', ESC # ''[93m''),
     (''ERROR'', ESC # ''[91m''),
     (''CRITICAL'', ESC # ''[91;1m'')]"

definition RESET :: string where
  "RESET = ESC # ''[0m''"

text \<open>
  \<^verbatim>\<open>format_time_with_ms\<close>: the base \<^verbatim>\<open>formatTime\<close> followed by a comma and the
  milliseconds in three digits.
\<close>

definition format_time_with_ms :: "log_record \<Rightarrow> string" where
  "format_time_with_ms record =
     strftime (lr_created record) @ '','' @ zfill 3 (str_nat (tm_msecs (lr_created record)))"

text \<open>
  \<^verbatim>\<open>logging.Formatter.format\<close> for the template
  \<^verbatim>\<open>[%(asctime)s] [%(levelname)s] [%(name)s:%(lineno)d] %(message)s\<close>, or
  \<^verbatim>\<open>[%(asctime)s] [%(levelname)s] [{service_name}] [%(name)s:%(lineno)d] %(message)s\<close>
  when a service name is given (a label without \<^verbatim>\<open>%\<close>, since it becomes part of the
  template).
\<close>

definition Formatter_format :: "formatter \<Rightarrow> log_record \<Rightarrow> string" where
  "Formatter_format f record =
     (case f of StandardizedFormatter service_name \<Rightarrow>
        ''['' @ format_time_with_ms record @ ''] ['' @ lr_levelname record @ ''] ''
        @ (case service_name of
             None \<Rightarrow> []
           | Some s \<Rightarrow> if s = [] then [] else ''['' @ s @ ''] '')
        @ ''['' @ lr_name record @ '':'' @ str_nat (cs_line (lr_site record)) @ ''] ''
        @ lr_message record)"

text \<open>
  \<^verbatim>\<open>StandardizedFormatter.format\<close>. \<open>isatty\<close> is
  \<^verbatim>\<open>hasattr(sys.stdout, 'isatty') and sys.stdout.isatty()\<close>. The record is mutable in
  Python, so the function returns it next to the formatted text.
\<close>

definition format :: "formatter \<Rightarrow> bool \<Rightarrow> log_record \<Rightarrow> string \<times> log_record" where
  "format self isatty record =
     (let levelname = lr_levelname record;
          colored_levelname =
            (if isatty then
               (case COLORS levelname of
                  Some c \<Rightarrow> c @ levelname @ RESET
                | None \<Rightarrow> levelname)
             else levelname);
          original_levelname = lr_levelname record;
          record1 = record\<lparr>lr_levelname := colored_levelname\<rparr>;
          formatted = Formatter_format self record1;
          record2 = record1\<lparr>lr_levelname := original_levelname\<rparr>
      in (formatted, record2))"

section \<open>The Loguru logger\<close>

text \<open>
  The part of the \<^verbatim>\<open>loguru\<close> library the repository calls, after the library's
  documentation: the logger holds a list of handlers, each with a sink, a minimum level
  number, a format and a colorize flag; a message at level number \<open>n\<close> is written once to
  every handler whose minimum is at most \<open>n\<close>.
\<close>

datatype error = ValueError | TypeError

datatype sink = Stdout | Stderr | File string

text \<open>
  The two format strings of \<^verbatim>\<open>configure_logging\<close>:
  \<^verbatim>\<open><green>{time:YYYY-MM-DD HH:mm:ss.SSS}</green> | <level>{level: <8}</level> | <cyan>{name}</cyan>:<cyan>{function}</cyan>:<cyan>{line}</cyan> - <level>{message}</level>\<close>
  (\<open>Markup_format\<close>) and
  \<^verbatim>\<open>{time:YYYY-MM-DD HH:mm:ss.SSS} | {level: <8} | {name}:{function}:{line} - {message}\<close>
  (\<open>Plain_format\<close>).
\<close>

datatype loguru_format = Markup_format | Plain_format

record loguru_handler =
  lh_sink :: sink
  lh_levelno :: int
  lh_format :: loguru_format
  lh_colorize :: bool
  lh_rotation :: "int option"
  lh_retention :: "int option"

type_synonym core = "loguru_handler list"

text \<open>Loguru's built-in levels; their names are case-sensitive.\<close>

definition loguru_levels :: "string \<Rightarrow> int option" where
  "loguru_levels = map_of [
     (''TRACE'', 5), (''DEBUG'', 10), (''INFO'', 20), (''SUCCESS'', 25),
     (''WARNING'', 30), (''ERROR'', 40), (''CRITICAL'', 50)]"

datatype level_spec = LevelName string | LevelNo int

text \<open>
  The level of a call \<^verbatim>\<open>logger.log(level, ...)\<close>: a name must be a known level, a number
  must not be negative and is shown as \<^verbatim>\<open>Level n\<close>.
\<close>

definition resolve_level :: "level_spec \<Rightarrow> error + (string \<times> int)" where
  "resolve_level l =
     (case l of
        LevelName s \<Rightarrow> (case loguru_levels s of None \<Rightarrow> Inl ValueError | Some n \<Rightarrow> Inr (s, n))
      | LevelNo n \<Rightarrow> if n < 0 then Inl ValueError else Inr (''Level '' @ str_int n, n))"

definition sgr :: "string \<Rightarrow> string" where
  "sgr code = ESC # ''['' @ code @ ''m''"

text \<open>The colour of the \<^verbatim>\<open><level>\<close> tag, per level name (none for a numeric level).\<close>

definition level_ansi :: "string \<Rightarrow> string" where
  "level_ansi lname =
     (case map_of [
         (''TRACE'', sgr ''36'' @ sgr ''1''), (''DEBUG'', sgr ''34'' @ sgr ''1''),
         (''INFO'', sgr ''1''), (''SUCCESS'', sgr ''32'' @ sgr ''1''),
         (''WARNING'', sgr ''33'' @ sgr ''1''), (''ERROR'', sgr ''31'' @ sgr ''1''),
         (''CRITICAL'', sgr ''41'' @ sgr ''1'')] lname of
        Some c \<Rightarrow> c | None \<Rightarrow> [])"

text \<open>
  A colour tag around a text: converted to ANSI codes when the handler colorizes, stripped
  otherwise; the plain format has no tags.
\<close>

definition tagged :: "loguru_handler \<Rightarrow> string \<Rightarrow> string \<Rightarrow> string" where
  "tagged h code s =
     (if lh_format h = Markup_format \<and> lh_colorize h then code @ s @ sgr ''0'' else s)"

definition loguru_time :: "timestamp \<Rightarrow> string" where
  "loguru_time t =
     zfill 4 (str_nat (tm_year t)) @ ''-'' @ zfill 2 (str_nat (tm_mon t)) @ ''-''
     @ zfill 2 (str_nat (tm_mday t)) @ '' '' @ zfill 2 (str_nat (tm_hour t)) @ '':''
     @ zfill 2 (str_nat (tm_min t)) @ '':'' @ zfill 2 (str_nat (tm_sec t)) @ ''.''
     @ zfill 3 (str_nat (tm_msecs t))"

definition loguru_line ::
  "loguru_handler \<Rightarrow> string \<Rightarrow> timestamp \<Rightarrow> call_site \<Rightarrow> string \<Rightarrow> string" where
  "loguru_line h lname t site msg =
     tagged h (sgr ''32'') (loguru_time t) @ '' | ''
     @ tagged h (level_ansi lname) (ljust 8 lname) @ '' | ''
     @ tagged h (sgr ''36'') (cs_module site) @ '':''
     @ tagged h (sgr ''36'') (cs_function site) @ '':''
     @ tagged h (sgr ''36'') (str_nat (cs_line site)) @ '' - ''
     @ tagged h (level_ansi lname) msg"

text \<open>
  \<^verbatim>\<open>logger.log(level, message)\<close> (and \<^verbatim>\<open>logger.info(message)\<close> and its siblings, which
  are \<^verbatim>\<open>log\<close> at the level of their name): the lines written, each with its sink, or the
  error raised for a level that does not exist.
\<close>

definition loguru_log ::
  "core \<Rightarrow> level_spec \<Rightarrow> timestamp \<Rightarrow> call_site \<Rightarrow> string \<Rightarrow> error + (sink \<times> string) list" where
  "loguru_log c l t site msg =
     (case resolve_level l of
        Inl e \<Rightarrow> Inl e
      | Inr (lname, n) \<Rightarrow>
          Inr (map (\<lambda>h. (lh_sink h, loguru_line h lname t site msg))
                 (filter (\<lambda>h. \<not> n < lh_levelno h) c)))"

text \<open>\<^verbatim>\<open>logger.remove()\<close> without an argument removes every handler.\<close>

definition loguru_remove :: "core \<Rightarrow> core" where
  "loguru_remove c = []"

text \<open>
  \<^verbatim>\<open>logger.add(sink, format=..., level=..., colorize=..., rotation=..., retention=...)\<close>
  with the level given by name: \<^verbatim>\<open>ValueError\<close> when no level has that name.
\<close>

definition loguru_add ::
  "sink \<Rightarrow> loguru_format \<Rightarrow> string \<Rightarrow> bool \<Rightarrow> int option \<Rightarrow> int option \<Rightarrow> core \<Rightarrow> error + core" where
  "loguru_add snk fmt lvl colorize rotation retention c =
     (case loguru_levels lvl of
        None \<Rightarrow> Inl ValueError
      | Some n \<Rightarrow>
          Inr (c @ [\<lparr>lh_sink = snk, lh_levelno = n, lh_format = fmt, lh_colorize = colorize,
                     lh_rotation = rotation, lh_retention = retention\<rparr>]))"

section \<open>The standard logging module\<close>

text \<open>
  The part of Python's \<^verbatim>\<open>logging\<close> the two modules configure: loggers in a hierarchy
  of dotted names below the root logger, each with a level, a list of handlers and a
  propagate flag. The handlers the repository makes are a \<^verbatim>\<open>StreamHandler(sys.stdout)\<close>,
  a \<^verbatim>\<open>RotatingFileHandler(log_file, maxBytes, backupCount)\<close> and the
  \<^verbatim>\<open>InterceptHandler\<close> of the Loguru module.
\<close>

datatype handler_kind = StreamHandler | RotatingFileHandler string int int | InterceptHandler

record handler =
  h_kind :: handler_kind
  h_level :: int
  h_formatter :: "formatter option"

record logger =
  lg_level :: int
  lg_handlers :: "handler list"
  lg_propagate :: bool

record logging_state =
  ls_root :: logger
  ls_loggers :: "string \<Rightarrow> logger option"

text \<open>A logger as \<^verbatim>\<open>logging.getLogger\<close> creates it, and the module's state at start.\<close>

definition new_logger :: logger where
  "new_logger = \<lparr>lg_level = 0, lg_handlers = [], lg_propagate = True\<rparr>"

definition initial_logging :: logging_state where
  "initial_logging = \<lparr>ls_root = new_logger\<lparr>lg_level := 30\<rparr>, ls_loggers = (\<lambda>n. None)\<rparr>"

definition is_root :: "string \<Rightarrow> bool" where
  "is_root name = (name = [] \<or> name = ''root'')"

text \<open>
  \<^verbatim>\<open>logging.getLogger(name)\<close>: the root logger for an empty name or the name
  \<^verbatim>\<open>root\<close>, the logger of that name otherwise, which is new when none was made before.
\<close>

definition getLogger :: "logging_state \<Rightarrow> string \<Rightarrow> logger" where
  "getLogger s name =
     (if is_root name then ls_root s
      else (case ls_loggers s name of None \<Rightarrow> new_logger | Some l \<Rightarrow> l))"

text \<open>Loggers are objects that Python mutates in place; the model stores the new value.\<close>

definition set_logger :: "string \<Rightarrow> logger \<Rightarrow> logging_state \<Rightarrow> logging_state" where
  "set_logger name l s =
     (if is_root name then s\<lparr>ls_root := l\<rparr>
      else s\<lparr>ls_loggers := (ls_loggers s)(name := Some l)\<rparr>)"

text \<open>\<^verbatim>\<open>name.rfind(".", 0, e)\<close>, with \<open>None\<close> for -1.\<close>

fun rfind_dot :: "string \<Rightarrow> nat \<Rightarrow> nat option" where
  "rfind_dot s 0 = None"
| "rfind_dot s (Suc j) = (if j < length s \<and> s ! j = CHR ''.'' then Some j else rfind_dot s j)"

text \<open>
  The names a logger's parent is looked up under, nearest first
  (\<^verbatim>\<open>Manager._fixupParents\<close>): \<^verbatim>\<open>i = name.rfind(".")\<close>, and while \<^verbatim>\<open>i > 0\<close> the
  prefix \<^verbatim>\<open>name[:i]\<close>, then \<^verbatim>\<open>i = name.rfind(".", 0, i - 1)\<close>.
\<close>

function parent_names_from :: "string \<Rightarrow> nat option \<Rightarrow> string list" where
  "parent_names_from s None = []"
| "parent_names_from s (Some i) =
     (if 0 < i then take i s # parent_names_from s (rfind_dot s (i - 1)) else [])"
  by pat_completeness auto
termination
proof (relation "measure (\<lambda>(s, io). case io of None \<Rightarrow> 0 | Some i \<Rightarrow> Suc i)")
  show "wf (measure (\<lambda>(s, io). case io of None \<Rightarrow> 0 | Some i \<Rightarrow> Suc i))"
    by simp
next
  fix s :: string and i :: nat
  assume "0 < i"
  have bound: "rfind_dot s e = Some j \<Longrightarrow> j < e" for e j
    by (induction e) (auto split: if_splits)
  show "((s, rfind_dot s (i - 1)), (s, Some i))
          \<in> measure (\<lambda>(s, io). case io of None \<Rightarrow> 0 | Some i \<Rightarrow> Suc i)"
    using bound [of "i - 1"] \<open>0 < i\<close> by (auto split: option.splits)
qed

definition parent_names :: "string \<Rightarrow> string list" where
  "parent_names name = parent_names_from name (rfind_dot name (length name))"

text \<open>
  A logger followed by its ancestors up to the root. A name no logger was made for stands
  for a logger with nothing set, which the walk passes through as Python passes over it.
\<close>

definition logger_chain :: "logging_state \<Rightarrow> string \<Rightarrow> logger list" where
  "logger_chain s name =
     (if is_root name then [ls_root s]
      else map (\<lambda>n. case ls_loggers s n of None \<Rightarrow> new_logger | Some l \<Rightarrow> l)
             (name # parent_names name) @ [ls_root s])"

text \<open>\<^verbatim>\<open>Logger.getEffectiveLevel\<close>: the first level that is not 0 on the way up.\<close>

fun getEffectiveLevel :: "logger list \<Rightarrow> int" where
  "getEffectiveLevel [] = 0"
| "getEffectiveLevel (l # ls) = (if lg_level l \<noteq> 0 then lg_level l else getEffectiveLevel ls)"

text \<open>
  The handlers \<^verbatim>\<open>Logger.callHandlers\<close> finds: those of the logger and of its ancestors,
  up to and including the first logger that does not propagate.
\<close>

fun callHandlers :: "logger list \<Rightarrow> handler list" where
  "callHandlers [] = []"
| "callHandlers (l # ls) = lg_handlers l @ (if lg_propagate l then callHandlers ls else [])"

definition getLevelName :: "int \<Rightarrow> string" where
  "getLevelName lvl =
     (case map_of [(50, ''CRITICAL''), (40, ''ERROR''), (30, ''WARNING''), (20, ''INFO''),
                   (10, ''DEBUG''), (0, ''NOTSET'')] lvl of
        Some n \<Rightarrow> n
      | None \<Rightarrow> ''Level '' @ str_int lvl)"

text \<open>\<^verbatim>\<open>Handler.format\<close>: the handler's formatter, or the default one (the message alone).\<close>

definition Handler_format :: "bool \<Rightarrow> handler \<Rightarrow> log_record \<Rightarrow> string" where
  "Handler_format isatty h record =
     (case h_formatter h of
        None \<Rightarrow> lr_message record
      | Some f \<Rightarrow> fst (format f isatty record))"

text \<open>
  What a handler's \<^verbatim>\<open>emit\<close> writes. \<^verbatim>\<open>InterceptHandler.emit\<close> takes the Loguru level
  of the record's level name, or the record's level number when Loguru has no such name,
  and logs the record's message there for the call site the record came from; an error of
  that call is not caught.
\<close>

definition Handler_emit ::
  "bool \<Rightarrow> core \<Rightarrow> handler \<Rightarrow> log_record \<Rightarrow> error + (sink \<times> string) list" where
  "Handler_emit isatty c h record =
     (case h_kind h of
        StreamHandler \<Rightarrow> Inr [(Stdout, Handler_format isatty h record)]
      | RotatingFileHandler path max_bytes backup_count \<Rightarrow>
          Inr [(File path, Handler_format isatty h record)]
      | InterceptHandler \<Rightarrow>
          loguru_log c
            (case loguru_levels (lr_levelname record) of
               Some n \<Rightarrow> LevelName (lr_levelname record)
             | None \<Rightarrow> LevelNo (lr_levelno record))
            (lr_created record) (lr_site record) (lr_message record))"

text \<open>
  The loop of \<^verbatim>\<open>callHandlers\<close> over the handlers found: each handler whose level the
  record reaches emits it. The result is the lines written and the error that ended the
  loop, if one did.
\<close>

fun handle_all ::
  "bool \<Rightarrow> core \<Rightarrow> handler list \<Rightarrow> log_record \<Rightarrow> (sink \<times> string) list \<times> error option" where
  "handle_all isatty c [] record = ([], None)"
| "handle_all isatty c (h # hs) record =
     (if h_level h \<le> lr_levelno record then
        (case Handler_emit isatty c h record of
           Inl e \<Rightarrow> ([], Some e)
         | Inr out \<Rightarrow>
             (case handle_all isatty c hs record of (out', e) \<Rightarrow> (out @ out', e)))
      else handle_all isatty c hs record)"

text \<open>
  \<^verbatim>\<open>logging.getLogger(name).log(lvl, msg)\<close>, and \<^verbatim>\<open>.info(msg)\<close> and its siblings at
  their levels. \<^verbatim>\<open>isEnabledFor\<close> refuses a level that \<^verbatim>\<open>manager.disable\<close> (0, never
  changed here) reaches or that is below the effective level. When no handler is found
  the handler of last resort writes warnings and above to standard error.
\<close>

definition Logger_log ::
  "bool \<Rightarrow> core \<Rightarrow> logging_state \<Rightarrow> string \<Rightarrow> int \<Rightarrow> timestamp \<Rightarrow> call_site \<Rightarrow> string
     \<Rightarrow> (sink \<times> string) list \<times> error option" where
  "Logger_log isatty c s name lvl t site msg =
     (let chain = logger_chain s name in
      if lvl \<le> 0 \<or> lvl < getEffectiveLevel chain then ([], None)
      else
        (let record = \<lparr>lr_name = (if is_root name then ''root'' else name), lr_levelno = lvl,
                        lr_levelname = getLevelName lvl, lr_created = t, lr_site = site,
                        lr_message = msg\<rparr>;
             found = callHandlers chain
         in if found = [] then (if 30 \<le> lvl then [(Stderr, msg)] else [], None)
            else handle_all isatty c found record))"

section \<open>The standard-library module: \<^verbatim>\<open>src/surreality_logging/__init__.py\<close>\<close>

text \<open>Python's truth value of an optional string: \<^verbatim>\<open>None\<close> and the empty string are false.\<close>

definition truthy :: "string option \<Rightarrow> bool" where
  "truthy v = (case v of None \<Rightarrow> False | Some s \<Rightarrow> s \<noteq> [])"

text \<open>
  One round of the loop of \<^verbatim>\<open>configure_uvicorn_logging\<close>: the logger's handlers are
  cleared, its level set, its propagation switched off, and a console handler and (with a
  log file) a rotating file handler added, neither with a level of its own.
\<close>

definition configure_uvicorn_logger ::
  "formatter \<Rightarrow> int \<Rightarrow> string option \<Rightarrow> int \<Rightarrow> int \<Rightarrow> string \<Rightarrow> logging_state \<Rightarrow> logging_state" where
  "configure_uvicorn_logger fmt lvl log_file max_bytes backup_count logger_name s =
     (let l0 = getLogger s logger_name;
          l1 = l0\<lparr>lg_handlers := []\<rparr>;
          l2 = l1\<lparr>lg_level := lvl\<rparr>;
          l3 = l2\<lparr>lg_propagate := False\<rparr>;
          console_handler = \<lparr>h_kind = StreamHandler, h_level = 0, h_formatter = Some fmt\<rparr>;
          l4 = l3\<lparr>lg_handlers := lg_handlers l3 @ [console_handler]\<rparr>;
          l5 = (if truthy log_file then
                  l4\<lparr>lg_handlers := lg_handlers l4 @
                        [\<lparr>h_kind = RotatingFileHandler (the log_file) max_bytes backup_count,
                          h_level = 0, h_formatter = Some fmt\<rparr>]\<rparr>
                else l4)
      in set_logger logger_name l5 s)"

text \<open>
  \<^verbatim>\<open>configure_uvicorn_logging(formatter, level, log_file, max_bytes, backup_count)\<close>: the
  loop over the three uvicorn loggers, then
  \<^verbatim>\<open>logging.getLogger("uvicorn.access").setLevel(logging.WARNING)\<close>.
\<close>

definition configure_uvicorn_logging ::
  "formatter \<Rightarrow> int \<Rightarrow> string option \<Rightarrow> int \<Rightarrow> int \<Rightarrow> logging_state \<Rightarrow> logging_state" where
  "configure_uvicorn_logging fmt lvl log_file max_bytes backup_count s =
     (let s1 = fold (configure_uvicorn_logger fmt lvl log_file max_bytes backup_count)
                 [''uvicorn'', ''uvicorn.error'', ''uvicorn.access''] s
      in set_logger ''uvicorn.access''
           ((getLogger s1 ''uvicorn.access'')\<lparr>lg_level := logging_level WARNING\<rparr>) s1)"

text \<open>
  \<^verbatim>\<open>configure_logging(level, service_name, include_uvicorn, log_file, max_bytes,
  backup_count)\<close>. One formatter serves the console handler and the file handler. The two
  informational records the function logs about itself are left out of the state.
\<close>

definition configure_logging ::
  "int \<Rightarrow> string option \<Rightarrow> bool \<Rightarrow> string option \<Rightarrow> int \<Rightarrow> int \<Rightarrow> logging_state \<Rightarrow> logging_state" where
  "configure_logging lvl service_name include_uvicorn log_file max_bytes backup_count s =
     (let fmt = StandardizedFormatter service_name;
          console_handler = \<lparr>h_kind = StreamHandler, h_level = lvl, h_formatter = Some fmt\<rparr>;
          r1 = (ls_root s)\<lparr>lg_level := lvl\<rparr>;
          r2 = r1\<lparr>lg_handlers := []\<rparr>;
          r3 = r2\<lparr>lg_handlers := lg_handlers r2 @ [console_handler]\<rparr>;
          r4 = (if truthy log_file then
                  r3\<lparr>lg_handlers := lg_handlers r3 @
                        [\<lparr>h_kind = RotatingFileHandler (the log_file) max_bytes backup_count,
                          h_level = lvl, h_formatter = Some fmt\<rparr>]\<rparr>
                else r3);
          s1 = s\<lparr>ls_root := r4\<rparr>
      in if include_uvicorn
         then configure_uvicorn_logging fmt lvl log_file max_bytes backup_count s1
         else s1)"

section \<open>The Loguru module: \<^verbatim>\<open>src/python/surreality_logging/__init__.py\<close>\<close>

text \<open>
  An entry of \<^verbatim>\<open>additional_loggers\<close>: a logger name, or a pair of a name and a level
  (a level name or a number).
\<close>

datatype logger_spec = Logger_name string | Logger_tuple string level_spec

text \<open>
  The attributes of the \<^verbatim>\<open>logging\<close> module with an upper-case name:
  the level constants, and two that are not integers.
\<close>

datatype pyval = PyInt int | PyStr | PyDict

definition logging_getattr :: "string \<Rightarrow> pyval option" where
  "logging_getattr = map_of [
     (''CRITICAL'', PyInt 50), (''FATAL'', PyInt 50), (''ERROR'', PyInt 40),
     (''WARNING'', PyInt 30), (''WARN'', PyInt 30), (''INFO'', PyInt 20),
     (''DEBUG'', PyInt 10), (''NOTSET'', PyInt 0),
     (''BASIC_FORMAT'', PyStr), (''_STYLES'', PyDict)]"

text \<open>
  The level a logger of \<^verbatim>\<open>loggers_to_configure\<close> is set to: for a string
  \<^verbatim>\<open>getattr(logging, logger_level.upper(), logging.INFO)\<close>, then
  \<^verbatim>\<open>setLevel\<close>, which takes an integer and raises for the two other values.
\<close>

definition stdlib_level :: "level_spec \<Rightarrow> error + int" where
  "stdlib_level l =
     (case l of
        LevelNo n \<Rightarrow> Inr n
      | LevelName s \<Rightarrow>
          (case logging_getattr (upper s) of
             None \<Rightarrow> Inr (logging_level INFO)
           | Some (PyInt n) \<Rightarrow> Inr n
           | Some PyStr \<Rightarrow> Inl ValueError
           | Some PyDict \<Rightarrow> Inl TypeError))"

definition intercept_handler :: handler where
  "intercept_handler = \<lparr>h_kind = InterceptHandler, h_level = 0, h_formatter = None\<rparr>"

text \<open>The loop over \<^verbatim>\<open>loggers_to_configure\<close>; an error ends it.\<close>

fun configure_loggers :: "(string \<times> level_spec) list \<Rightarrow> logging_state \<Rightarrow> error + logging_state" where
  "configure_loggers [] s = Inr s"
| "configure_loggers ((logger_name, logger_level) # rest) s =
     (let l0 = getLogger s logger_name;
          l1 = l0\<lparr>lg_handlers := [intercept_handler]\<rparr>;
          l2 = l1\<lparr>lg_propagate := False\<rparr>
      in case stdlib_level logger_level of
           Inl e \<Rightarrow> Inl e
         | Inr n \<Rightarrow> configure_loggers rest (set_logger logger_name (l2\<lparr>lg_level := n\<rparr>) s))"

text \<open>
  \<^verbatim>\<open>intercept_standard_logging(level, additional_loggers)\<close>.
  \<^verbatim>\<open>logging.basicConfig(handlers=[InterceptHandler()], level=0, force=True)\<close> replaces the
  root logger's handlers and sets its level to 0.
\<close>

definition loggers_to_configure :: "string \<Rightarrow> logger_spec list \<Rightarrow> (string \<times> level_spec) list" where
  "loggers_to_configure lvl additional_loggers =
     [(''uvicorn'', LevelName lvl), (''uvicorn.error'', LevelName lvl),
      (''uvicorn.access'', LevelName ''WARNING'')]
     @ map (\<lambda>logger_spec. case logger_spec of
              Logger_tuple n l \<Rightarrow> (n, l)
            | Logger_name n \<Rightarrow> (n, LevelName lvl)) additional_loggers"

definition intercept_standard_logging ::
  "string \<Rightarrow> logger_spec list \<Rightarrow> logging_state \<Rightarrow> error + logging_state" where
  "intercept_standard_logging lvl additional_loggers s =
     (let s1 = s\<lparr>ls_root := (ls_root s)\<lparr>lg_handlers := [intercept_handler], lg_level := 0\<rparr>\<rparr>
      in configure_loggers (loggers_to_configure lvl additional_loggers) s1)"

text \<open>
  \<^verbatim>\<open>configure_logging(level, service_name, intercept_stdlib, additional_loggers, log_file,
  max_bytes, backup_count, colorize)\<close> of the Loguru module, on the Loguru handlers and the
  state of the standard logging module. \<^verbatim>\<open>service_name\<close> is not read. The file sink gets
  the plain format and no colorize argument, which for a file is no colour.
\<close>

definition configure_logging_loguru ::
  "string \<Rightarrow> string option \<Rightarrow> bool \<Rightarrow> logger_spec list \<Rightarrow> string option \<Rightarrow> int \<Rightarrow> int \<Rightarrow> bool
     \<Rightarrow> core \<times> logging_state \<Rightarrow> error + (core \<times> logging_state)" where
  "configure_logging_loguru lvl service_name intercept_stdlib additional_loggers log_file
       max_bytes backup_count colorize st =
     (let c0 = loguru_remove (fst st);
          log_format = (if \<not> colorize then Plain_format else Markup_format)
      in case loguru_add Stdout log_format lvl colorize None None c0 of
           Inl e \<Rightarrow> Inl e
         | Inr c1 \<Rightarrow>
             (case (if truthy log_file
                    then loguru_add (File (the log_file)) Plain_format lvl False
                           (Some max_bytes) (Some backup_count) c1
                    else Inr c1) of
                Inl e \<Rightarrow> Inl e
              | Inr c2 \<Rightarrow>
                  (if intercept_stdlib then
                     (case intercept_standard_logging lvl additional_loggers (snd st) of
                        Inl e \<Rightarrow> Inl e
                      | Inr s' \<Rightarrow> Inr (c2, s'))
                   else Inr (c2, snd st))))"

section \<open>Sinks and a sample call\<close>



text \<open>A time and a call site for worked examples.\<close>

definition sample_time :: timestamp where
  "sample_time = \<lparr>tm_year = 2025, tm_mon = 1, tm_mday = 15, tm_hour = 10, tm_min = 30,
                    tm_sec = 45, tm_msecs = 123\<rparr>"

definition sample_site :: call_site where
  "sample_site = \<lparr>cs_module = ''app'', cs_function = ''main'', cs_line = 45\<rparr>"

section \<open>Properties\<close>

subsection \<open>Facts about names and levels\<close>

lemma not_root_uvicorn [simp]:
  "\<not> is_root ''uvicorn''" "\<not> is_root ''uvicorn.error''" "\<not> is_root ''uvicorn.access''"
  by (simp_all add: is_root_def)

lemma upper_level_names:
  "upper ''TRACE'' = ''TRACE''" "upper ''DEBUG'' = ''DEBUG''" "upper ''INFO'' = ''INFO''"
  "upper ''SUCCESS'' = ''SUCCESS''" "upper ''WARNING'' = ''WARNING''"
  "upper ''ERROR'' = ''ERROR''" "upper ''CRITICAL'' = ''CRITICAL''"
  by code_simp+

lemma stdlib_level_INFO: "stdlib_level (LevelName ''INFO'') = Inr 20"
  by (simp add: stdlib_level_def logging_getattr_def upper_level_names)

lemma stdlib_level_WARNING: "stdlib_level (LevelName ''WARNING'') = Inr 30"
  by (simp add: stdlib_level_def logging_getattr_def upper_level_names)

lemma loguru_level_names:
  "loguru_levels lvl = Some k \<Longrightarrow>
     lvl \<in> {''TRACE'', ''DEBUG'', ''INFO'', ''SUCCESS'', ''WARNING'', ''ERROR'', ''CRITICAL''}"
  by (auto simp add: loguru_levels_def split: if_splits)



subsection \<open>Facts about the configured state\<close>







lemma loguru_core_configured:
  "loguru_levels lvl = Some n \<Longrightarrow>
   configure_logging_loguru lvl sn ic al lf mb bc col st = Inr (c', s') \<Longrightarrow>
     c' = \<lparr>lh_sink = Stdout, lh_levelno = n,
            lh_format = (if col then Markup_format else Plain_format), lh_colorize = col,
            lh_rotation = None, lh_retention = None\<rparr> #
          (if truthy lf
           then [\<lparr>lh_sink = File (the lf), lh_levelno = n, lh_format = Plain_format,
                   lh_colorize = False, lh_rotation = Some mb, lh_retention = Some bc\<rparr>]
           else [])"
  by (auto simp add: configure_logging_loguru_def loguru_add_def loguru_remove_def Let_def
      split: sum.splits if_splits)

lemma loguru_default_returns:
  "\<exists>c' s'. configure_logging_loguru ''INFO'' sn True [] lf mb bc col st = Inr (c', s')"
  by (auto simp add: configure_logging_loguru_def intercept_standard_logging_def
      loggers_to_configure_def Let_def stdlib_level_INFO stdlib_level_WARNING loguru_add_def
      loguru_levels_def split: sum.splits if_splits)

subsection \<open>The claims\<close>








text \<open>
  C7, the standard-library module on a terminal. With standard output a terminal and a log
  file configured, an INFO record logged through the logger \<^verbatim>\<open>app\<close> is written to the file
  with the colour codes around the level name, the same text as on the console.
\<close>

theorem file_line_colored_on_tty:
  "Logger_log True [] (configure_logging (logging_level INFO) None True (Some ''app.log'')
       1000 5 initial_logging) ''app'' (logging_level INFO) sample_time sample_site ''hi''
     = ([(Stdout, ''[2025-01-15 10:30:45,123] ['' @ ESC # ''[90mINFO'' @ ESC # ''[0m] [app:45] hi''),
         (File ''app.log'',
            ''[2025-01-15 10:30:45,123] ['' @ ESC # ''[90mINFO'' @ ESC # ''[0m] [app:45] hi'')],
        None)"
  by code_simp

text \<open>
  C10. In the Loguru module, \<^verbatim>\<open>get_logger\<close> returns the same single global logger for
  every name argument, \<^verbatim>\<open>None\<close> included: the handles returned for any two arguments
  are identical, and each is the global logger.
\<close>

theorem get_logger_loguru_global:
  "get_logger_loguru a = get_logger_loguru b \<and> get_logger_loguru a = Loguru_logger"
  by (simp add: get_logger_loguru_def)

theorem get_logger_loguru_global_witness:
  "get_logger_loguru None = get_logger_loguru (Some ''app.main'')
   \<and> get_logger_loguru (Some ''app.main'') = Loguru_logger"
  using get_logger_loguru_global [of None "Some ''app.main''"]
    get_logger_loguru_global [of "Some ''app.main''" None]
  by simp

subsection \<open>Dispatch along the logger hierarchy\<close>

















subsection \<open>Intercepted loggers\<close>

















subsection \<open>Escape sequences\<close>

lemma digit_char_not_ESC: "digit_char d \<noteq> ESC"
proof -
  have "digit_char d \<in> set ''0123456789''"
    unfolding digit_char_def by (rule nth_mem) simp
  then show ?thesis by (auto simp add: ESC_def)
qed

lemma ESC_str_nat: "ESC \<notin> set (str_nat n)"
proof (induction n rule: str_nat.induct)
  case (1 n)
  show ?case
  proof (cases "n < 10")
    case True
    then show ?thesis using digit_char_not_ESC [of n] by (subst str_nat.simps) auto
  next
    case False
    then show ?thesis using 1 digit_char_not_ESC [of n] by (subst str_nat.simps) auto
  qed
qed

lemma ESC_str_int: "ESC \<notin> set (str_int i)"
  using ESC_str_nat by (auto simp add: str_int_def ESC_def)

lemma ESC_zfill: "ESC \<notin> set s \<Longrightarrow> ESC \<notin> set (zfill w s)"
  by (auto simp add: zfill_def ESC_def)

lemma ESC_ljust: "ESC \<notin> set s \<Longrightarrow> ESC \<notin> set (ljust w s)"
  by (auto simp add: ljust_def ESC_def)

lemma ESC_punctuation [simp]:
  "ESC \<noteq> CHR ''-''" "ESC \<noteq> CHR '' ''" "ESC \<noteq> CHR '':''" "ESC \<noteq> CHR '',''"
  "ESC \<noteq> CHR ''.''" "ESC \<noteq> CHR ''[''" "ESC \<noteq> CHR '']''" "ESC \<noteq> CHR ''|''"
  by (simp_all add: ESC_def)

lemma ESC_strftime: "ESC \<notin> set (strftime t)"
  by (simp add: strftime_def ESC_zfill ESC_str_nat)

lemma ESC_loguru_time: "ESC \<notin> set (loguru_time t)"
  by (simp add: loguru_time_def ESC_zfill ESC_str_nat)

lemma ESC_Formatter_format:
  "ESC \<notin> set (lr_levelname r) \<Longrightarrow> ESC \<notin> set (lr_name r) \<Longrightarrow> ESC \<notin> set (lr_message r) \<Longrightarrow>
   ESC \<notin> set (case sn of None \<Rightarrow> [] | Some s \<Rightarrow> s) \<Longrightarrow>
   ESC \<notin> set (Formatter_format (StandardizedFormatter sn) r)"
  by (auto simp add: Formatter_format_def format_time_with_ms_def ESC_strftime ESC_zfill
      ESC_str_nat split: option.splits)

lemma format_not_tty: "fst (format self False r) = Formatter_format self r"
  by (simp add: format_def Let_def)

lemma ESC_resolve_level: "resolve_level l = Inr (lname, n) \<Longrightarrow> ESC \<notin> set lname"
proof (cases l)
  case (LevelName s)
  assume "resolve_level l = Inr (lname, n)"
  with LevelName have "loguru_levels s = Some n" and "lname = s"
    by (auto simp add: resolve_level_def split: option.splits)
  then show ?thesis using loguru_level_names [of s n] by (auto simp add: ESC_def)
next
  case (LevelNo k)
  assume "resolve_level l = Inr (lname, n)"
  with LevelNo have "lname = ''Level '' @ str_int k"
    by (auto simp add: resolve_level_def split: if_splits)
  then show ?thesis using ESC_str_int [of k] by (auto simp add: ESC_def)
qed

lemma ESC_loguru_line:
  "\<not> lh_colorize h \<Longrightarrow> ESC \<notin> set lname \<Longrightarrow> ESC \<notin> set (cs_module site) \<Longrightarrow>
   ESC \<notin> set (cs_function site) \<Longrightarrow> ESC \<notin> set msg \<Longrightarrow>
   ESC \<notin> set (loguru_line h lname t site msg)"
  by (simp add: loguru_line_def tagged_def ESC_loguru_time ESC_ljust ESC_str_nat)

lemma loguru_not_colorized:
  assumes "configure_logging_loguru lvl sn ic al lf mb bc False st = Inr (c', s')"
    and "loguru_log c' l t site msg = Inr out"
    and "ESC \<notin> set (cs_module site)" "ESC \<notin> set (cs_function site)" "ESC \<notin> set msg"
    and "(k, line) \<in> set out"
  shows "ESC \<notin> set line"
proof -
  obtain n where n: "loguru_levels lvl = Some n"
    using assms(1)
    by (cases "loguru_levels lvl")
       (auto simp add: configure_logging_loguru_def loguru_add_def Let_def)
  have nc: "\<forall>h \<in> set c'. \<not> lh_colorize h"
    using loguru_core_configured [OF n assms(1)] by auto
  obtain lname no where r: "resolve_level l = Inr (lname, no)"
    using assms(2) by (auto simp add: loguru_log_def split: sum.splits)
  then obtain h where "h \<in> set c'" "line = loguru_line h lname t site msg"
    using assms(2,6) by (auto simp add: loguru_log_def)
  then show ?thesis
    using nc ESC_resolve_level [OF r] assms(3-5) by (simp add: ESC_loguru_line)
qed

text \<open>
  C6, as the code has it. In the standard-library module, when standard output is not a
  terminal the formatter returns the plain rendering of the record, which holds no escape
  character unless the record's own texts or the service label do. In the Loguru module
  the console sink is colorized by the \<^verbatim>\<open>colorize\<close> argument alone: with
  \<^verbatim>\<open>colorize=False\<close> no written line holds an escape character unless the call site or
  the message does.
\<close>

theorem no_escape_when_not_colorized:
  "fst (format self False rcd) = Formatter_format self rcd
   \<and> (ESC \<notin> set (lr_levelname rcd) \<and> ESC \<notin> set (lr_name rcd)
      \<and> ESC \<notin> set (lr_message rcd) \<and> ESC \<notin> set (case sn of None \<Rightarrow> [] | Some s \<Rightarrow> s)
      \<longrightarrow> ESC \<notin> set (fst (format (StandardizedFormatter sn) False rcd)))
   \<and> (configure_logging_loguru lvl sn' ic al lf mb bc False st = Inr (c', s')
      \<and> loguru_log c' l t site msg = Inr out
      \<and> ESC \<notin> set (cs_module site) \<and> ESC \<notin> set (cs_function site) \<and> ESC \<notin> set msg
      \<and> (k, line) \<in> set out
      \<longrightarrow> ESC \<notin> set line)"
proof (intro conjI impI)
  show "fst (format self False rcd) = Formatter_format self rcd"
    by (rule format_not_tty)
next
  assume "ESC \<notin> set (lr_levelname rcd) \<and> ESC \<notin> set (lr_name rcd)
      \<and> ESC \<notin> set (lr_message rcd) \<and> ESC \<notin> set (case sn of None \<Rightarrow> [] | Some s \<Rightarrow> s)"
  then show "ESC \<notin> set (fst (format (StandardizedFormatter sn) False rcd))"
    by (simp only: format_not_tty) (simp add: ESC_Formatter_format)
next
  assume "configure_logging_loguru lvl sn' ic al lf mb bc False st = Inr (c', s')
      \<and> loguru_log c' l t site msg = Inr out
      \<and> ESC \<notin> set (cs_module site) \<and> ESC \<notin> set (cs_function site) \<and> ESC \<notin> set msg
      \<and> (k, line) \<in> set out"
  then show "ESC \<notin> set line"
    using loguru_not_colorized by blast
qed

theorem no_escape_when_not_colorized_witness:
  "ESC \<notin> set (fst (format (StandardizedFormatter (Some ''svc'')) False
       \<lparr>lr_name = ''app'', lr_levelno = 20, lr_levelname = ''INFO'',
         lr_created = sample_time, lr_site = sample_site, lr_message = ''hi''\<rparr>))
   \<and> (\<exists>c' s' line.
        configure_logging_loguru ''INFO'' None True [] None 1000 5 False ([], initial_logging)
          = Inr (c', s')
        \<and> loguru_log c' (LevelName ''INFO'') sample_time sample_site ''hi'' = Inr [(Stdout, line)]
        \<and> ESC \<notin> set line)"
proof -
  let ?r = "\<lparr>lr_name = ''app'', lr_levelno = 20, lr_levelname = ''INFO'',
         lr_created = sample_time, lr_site = sample_site, lr_message = ''hi''\<rparr>"
  have h1: "ESC \<notin> set (lr_levelname ?r) \<and> ESC \<notin> set (lr_name ?r)
      \<and> ESC \<notin> set (lr_message ?r) \<and> ESC \<notin> set (case Some ''svc'' of None \<Rightarrow> [] | Some s \<Rightarrow> s)"
    by (simp add: ESC_def)
  have a: "ESC \<notin> set (fst (format (StandardizedFormatter (Some ''svc'')) False ?r))"
    using h1 no_escape_when_not_colorized [where rcd = ?r and sn = "Some ''svc''"]
    by blast
  obtain c' s' where conf:
    "configure_logging_loguru ''INFO'' None True [] None 1000 5 False ([], initial_logging)
       = Inr (c', s')"
    using loguru_default_returns by blast
  have core: "c' = [\<lparr>lh_sink = Stdout, lh_levelno = 20, lh_format = Plain_format,
      lh_colorize = False, lh_rotation = None, lh_retention = None\<rparr>]"
    using loguru_core_configured [where lvl = "''INFO''" and n = 20, OF _ conf]
    by (simp add: loguru_levels_def truthy_def)
  obtain line where out:
    "loguru_log c' (LevelName ''INFO'') sample_time sample_site ''hi'' = Inr [(Stdout, line)]"
    by (simp add: core loguru_log_def resolve_level_def loguru_levels_def)
  have h2: "ESC \<notin> set (cs_module sample_site) \<and> ESC \<notin> set (cs_function sample_site)
      \<and> ESC \<notin> set ''hi''"
    by (simp add: sample_site_def ESC_def)
  have "ESC \<notin> set line"
    using conf out h2
      no_escape_when_not_colorized [where lvl = "''INFO''" and sn' = None and ic = True
        and al = "[]" and lf = None and mb = 1000 and bc = 5 and st = "([], initial_logging)"
        and c' = c' and s' = s' and l = "LevelName ''INFO''" and t = sample_time
        and site = sample_site and msg = "''hi''" and out = "[(Stdout, line)]"
        and k = Stdout and line = line]
    by simp
  with a conf out show ?thesis by blast
qed

text \<open>
  C6 as stated fails in the Loguru module, which never looks at the destination stream:
  with the default \<^verbatim>\<open>colorize=True\<close> the console line carries escape sequences whether or
  not standard output is a terminal.
\<close>

theorem loguru_colorize_ignores_stream:
  "(case configure_logging_loguru ''INFO'' None False [] None 0 0 True ([], initial_logging) of
      Inl e \<Rightarrow> False
    | Inr st \<Rightarrow>
        (case loguru_log (fst st) (LevelName ''INFO'') sample_time sample_site ''hi'' of
           Inl e \<Rightarrow> False
         | Inr out \<Rightarrow> map fst out = [Stdout] \<and> ESC \<in> set (snd (hd out))))"
  by code_simp

end
